theory Spec2Isabelle
  imports Main
begin

section \<open>Brute-force guards of the payment API (middleware/brute.js)\<close>

text \<open>
  The module builds one mongoose model, one store over it and four guards
  (login, global, registration, payment), each from an options object with the
  numeric tier settings, a \<open>failCallback\<close> and, for login only, a
  \<open>handleStoreError\<close>. The model below follows the module top to bottom.
  Times are JavaScript time values: whole milliseconds since the epoch.
\<close>

subsection \<open>Values\<close>

type_synonym time = int

text \<open>
  A \<open>Date\<close> object holds a time value or, as an Invalid Date, \<open>NaN\<close>. The
  arithmetic of the callbacks stays within the integral numbers and \<open>NaN\<close>.
\<close>

datatype date = Date time | InvalidDate

datatype number = Num int | NaN

text \<open>
  In a JSON body a valid date is sent as its time (in ISO form), an invalid one as
  \<open>null\<close>.
\<close>

datatype json = JBool bool | JString string | JDate time | JNull

fun date_to_json :: "date \<Rightarrow> json" where
  "date_to_json (Date t) = JDate t"
| "date_to_json InvalidDate = JNull"

type_synonym json_object = "(string \<times> json) list"

text \<open>
  What a callback can do to the request: set the status of the response
  (\<open>res.status(n)\<close>), send a JSON body (\<open>res.json(body)\<close>), pass the request
  on (\<open>next()\<close>). A callback maps the state it finds to the state it leaves.
\<close>

record effects =
  status_set :: "nat option"
  json_sent :: "json_object option"
  next_called :: bool

definition res_status :: "nat \<Rightarrow> effects \<Rightarrow> effects" where
  "res_status n e = e\<lparr>status_set := Some n\<rparr>"

definition res_json :: "json_object \<Rightarrow> effects \<Rightarrow> effects" where
  "res_json b e = e\<lparr>json_sent := Some b\<rparr>"

definition call_next :: "effects \<Rightarrow> effects" where
  "call_next e = e\<lparr>next_called := True\<rparr>"

text \<open>The field \<open>k\<close> of the body that was sent, if a body was sent and has it.\<close>

definition sent_field :: "effects \<Rightarrow> string \<Rightarrow> json option" where
  "sent_field e k = (case json_sent e of None \<Rightarrow> None | Some b \<Rightarrow> map_of b k)"

subsection \<open>Numbers in template literals\<close>

text \<open>
  \<open>`${waitTime}`\<close> prints an integral number in decimal, with a minus sign when
  negative (and \<open>-0\<close> as \<open>0\<close>), and \<open>NaN\<close> as \<open>NaN\<close>.
\<close>

definition digit_char :: "nat \<Rightarrow> char" where
  "digit_char d = ''0123456789'' ! d"

fun digits :: "nat \<Rightarrow> string" where
  "digits n = (if n < 10 then [digit_char n] else digits (n div 10) @ [digit_char (n mod 10)])"

definition integer_to_string :: "int \<Rightarrow> string" where
  "integer_to_string i = (if i < 0 then CHR ''-'' # digits (nat (- i)) else digits (nat i))"

fun number_to_string :: "number \<Rightarrow> string" where
  "number_to_string (Num i) = integer_to_string i"
| "number_to_string NaN = ''NaN''"

text \<open>
  \<open>nextValidRequestDate - Date.now()\<close>: the date is converted to its time value;
  the clock always reads a time. With an Invalid Date the difference is \<open>NaN\<close>.
\<close>

fun date_minus :: "date \<Rightarrow> time \<Rightarrow> number" where
  "date_minus (Date t) now = Num (t - now)"
| "date_minus InvalidDate now = NaN"

text \<open>
  \<open>Math.ceil(x / 1000 / 60)\<close>: the two divisions are exact on the rationals
  here, so the result for a number is the ceiling of it over 60000. (The
  double-precision quotient has the same ceiling whenever the difference is below
  \<open>2^51\<close> in absolute value, which covers every wait the tiers can produce.)
  \<open>NaN\<close> stays \<open>NaN\<close>.
\<close>

definition minutes_up :: "int \<Rightarrow> int" where
  "minutes_up d = - ((- d) div 60000)"

fun ceil_minutes :: "number \<Rightarrow> number" where
  "ceil_minutes (Num d) = Num (minutes_up d)"
| "ceil_minutes NaN = NaN"

subsection \<open>Store errors, the environment, the console\<close>

type_synonym store_error = string

datatype log_entry = ConsoleError string store_error

type_synonym console = "log_entry list"

datatype 'a completion = Returns 'a | Throws store_error

text \<open>\<open>process.env\<close>: a variable is a string or undefined.\<close>

record env =
  NODE_ENV :: "string option"
  CI :: "string option"

text \<open>A string is truthy when it is not empty; undefined is falsy.\<close>

definition truthy :: "string option \<Rightarrow> bool" where
  "truthy v = (case v of None \<Rightarrow> False | Some s \<Rightarrow> s \<noteq> [])"

subsection \<open>Options of a guard\<close>

record options =
  freeRetries :: nat
  minWait :: nat
  maxWait :: nat
  lifetime :: nat
  failCallback :: "time \<Rightarrow> date \<Rightarrow> effects \<Rightarrow> effects"
  handleStoreError :: "(env \<Rightarrow> store_error \<Rightarrow> console \<Rightarrow> unit completion \<times> console) option"

text \<open>
  A \<open>failCallback\<close> is called with \<open>(req, res, next, nextValidRequestDate)\<close>;
  none of the four reads \<open>req\<close>. Its model takes the reading of
  \<open>Date.now()\<close>, the \<open>nextValidRequestDate\<close> and the state of the response.
  The date is the one the guard computes from the stored record of the key; a record
  without its \<open>lastRequest\<close>, which the schema below does not rule out, makes it
  an Invalid Date.
\<close>

definition login_failCallback :: "time \<Rightarrow> date \<Rightarrow> effects \<Rightarrow> effects" where
  "login_failCallback now nextValidRequestDate e =
     (let waitTime = ceil_minutes (date_minus nextValidRequestDate now)
      in res_json
           [(''success'', JBool False),
            (''message'', JString (''Too many failed login attempts. Please try again in ''
                                   @ number_to_string waitTime @ '' minute(s).'')),
            (''nextValidRequestDate'', date_to_json nextValidRequestDate)]
           (res_status 429 e))"

definition login_handleStoreError ::
  "env \<Rightarrow> store_error \<Rightarrow> console \<Rightarrow> unit completion \<times> console" where
  "login_handleStoreError ev error out =
     (let out' = out @ [ConsoleError ''Express-brute store error:'' error]
      in if NODE_ENV ev = Some ''test'' \<or> truthy (CI ev)
         then (Returns (), out')
         else (Returns (), out'))"

definition loginOptions :: options where
  "loginOptions =
     \<lparr> freeRetries = 5,
       minWait = 5 * 60 * 1000,
       maxWait = 60 * 60 * 1000,
       lifetime = 24 * 60 * 60,
       failCallback = login_failCallback,
       handleStoreError = Some login_handleStoreError \<rparr>"

definition global_failCallback :: "time \<Rightarrow> date \<Rightarrow> effects \<Rightarrow> effects" where
  "global_failCallback now nextValidRequestDate e =
     res_json
       [(''success'', JBool False),
        (''message'', JString ''Too many requests from this IP. Please slow down.'')]
       (res_status 429 e)"

definition globalOptions :: options where
  "globalOptions =
     \<lparr> freeRetries = 100,
       minWait = 1 * 60 * 1000,
       maxWait = 15 * 60 * 1000,
       lifetime = 60 * 60,
       failCallback = global_failCallback,
       handleStoreError = None \<rparr>"

definition registration_failCallback :: "time \<Rightarrow> date \<Rightarrow> effects \<Rightarrow> effects" where
  "registration_failCallback now nextValidRequestDate e =
     (let waitTime = ceil_minutes (date_minus nextValidRequestDate now)
      in res_json
           [(''success'', JBool False),
            (''message'', JString (''Too many registration attempts. Please try again in ''
                                   @ number_to_string waitTime @ '' minute(s).''))]
           (res_status 429 e))"

definition registrationOptions :: options where
  "registrationOptions =
     \<lparr> freeRetries = 3,
       minWait = 10 * 60 * 1000,
       maxWait = 2 * 60 * 60 * 1000,
       lifetime = 24 * 60 * 60,
       failCallback = registration_failCallback,
       handleStoreError = None \<rparr>"

definition payment_failCallback :: "time \<Rightarrow> date \<Rightarrow> effects \<Rightarrow> effects" where
  "payment_failCallback now nextValidRequestDate e =
     res_json
       [(''success'', JBool False),
        (''message'', JString ''Payment creation rate limit exceeded. Please wait before creating another payment.'')]
       (res_status 429 e)"

definition paymentOptions :: options where
  "paymentOptions =
     \<lparr> freeRetries = 10,
       minWait = 5 * 60 * 1000,
       maxWait = 30 * 60 * 1000,
       lifetime = 60 * 60,
       failCallback = payment_failCallback,
       handleStoreError = None \<rparr>"

text \<open>The four guards by the names the module exports them under.\<close>

datatype tier = Login | Global | Registration | Payment

fun tier_options :: "tier \<Rightarrow> options" where
  "tier_options Login = loginOptions"
| "tier_options Global = globalOptions"
| "tier_options Registration = registrationOptions"
| "tier_options Payment = paymentOptions"

text \<open>
  Units of the settings, as the comments beside them give them: waits in
  milliseconds, the lifetime in seconds.
\<close>

definition minutes_ms :: "nat \<Rightarrow> nat" where
  "minutes_ms n = n * 60 * 1000"

definition hours_ms :: "nat \<Rightarrow> nat" where
  "hours_ms n = n * 60 * 60 * 1000"

definition hours_s :: "nat \<Rightarrow> nat" where
  "hours_s n = n * 60 * 60"

subsection \<open>Objects of the module\<close>

text \<open>
  The module creates its objects once, when it is loaded: the model (unless mongoose
  already has one registered under the name \<open>BruteForce\<close>), the store over the
  model, and the four guards over the store. Objects live in a heap and are held by
  reference, so that two guards holding the same store is a statement about
  references. \<open>mongoose.models\<close> is the registry of models by name; the module
  allows for it to be undefined.
\<close>

datatype schema_type =
    SString
  | SNumber
  | SDate
  | SDateExpires string
  | SObject "(string \<times> schema_type) list"

type_synonym schema = "(string \<times> schema_type) list"

definition bruteForceSchema :: schema where
  "bruteForceSchema =
     [(''_id'', SString),
      (''data'', SObject [(''count'', SNumber), (''lastRequest'', SDate), (''firstRequest'', SDate)]),
      (''expires'', SDateExpires ''1d'')]"

type_synonym ref = nat

datatype obj =
    Model string schema
  | MongooseStore ref
  | ExpressBrute ref options

record world =
  heap :: "obj list"
  mongoose_models :: "(string \<rightharpoonup> ref) option"

definition new :: "obj \<Rightarrow> world \<Rightarrow> ref \<times> world" where
  "new ob w = (length (heap w), w\<lparr>heap := heap w @ [ob]\<rparr>)"

text \<open>
  \<open>mongoose.model(name, schema)\<close> creates a model and registers it under its name
  (in a fresh registry when there was none).
\<close>

definition mongoose_model :: "string \<Rightarrow> schema \<Rightarrow> world \<Rightarrow> ref \<times> world" where
  "mongoose_model name sch w =
     (let (r, w') = new (Model name sch) w;
          registry = (case mongoose_models w' of None \<Rightarrow> Map.empty | Some m \<Rightarrow> m)
      in (r, w'\<lparr>mongoose_models := Some (registry(name \<mapsto> r))\<rparr>))"

definition BruteForceModel :: "world \<Rightarrow> ref \<times> world" where
  "BruteForceModel w =
     (case mongoose_models w of
        None \<Rightarrow> mongoose_model ''BruteForce'' bruteForceSchema w
      | Some m \<Rightarrow>
          (case m ''BruteForce'' of
             Some r \<Rightarrow> (r, w)
           | None \<Rightarrow> mongoose_model ''BruteForce'' bruteForceSchema w))"

record exports =
  loginBruteForce :: ref
  globalBruteForce :: ref
  registrationBruteForce :: ref
  paymentBruteForce :: ref

definition store :: "world \<Rightarrow> ref \<times> world" where
  "store w = (let (m, w') = BruteForceModel w in new (MongooseStore m) w')"

definition brute_module :: "world \<Rightarrow> exports \<times> world" where
  "brute_module w0 =
     (let (st, w1) = store w0;
          (lg, w2) = new (ExpressBrute st loginOptions) w1;
          (gl, w3) = new (ExpressBrute st globalOptions) w2;
          (rg, w4) = new (ExpressBrute st registrationOptions) w3;
          (pm, w5) = new (ExpressBrute st paymentOptions) w4
      in (\<lparr> loginBruteForce = lg, globalBruteForce = gl,
             registrationBruteForce = rg, paymentBruteForce = pm \<rparr>, w5))"

definition lookup :: "world \<Rightarrow> ref \<Rightarrow> obj option" where
  "lookup w r = (if r < length (heap w) then Some (heap w ! r) else None)"

definition store_of :: "world \<Rightarrow> ref \<Rightarrow> ref option" where
  "store_of w g = (case lookup w g of Some (ExpressBrute st opts) \<Rightarrow> Some st | _ \<Rightarrow> None)"

definition model_of :: "world \<Rightarrow> ref \<Rightarrow> ref option" where
  "model_of w s = (case lookup w s of Some (MongooseStore m) \<Rightarrow> Some m | _ \<Rightarrow> None)"

fun is_store :: "obj \<Rightarrow> bool" where
  "is_store (MongooseStore m) = True"
| "is_store _ = False"

fun is_model :: "obj \<Rightarrow> bool" where
  "is_model (Model name sch) = True"
| "is_model _ = False"

definition registered :: "world \<Rightarrow> string \<Rightarrow> ref option" where
  "registered w name = (case mongoose_models w of None \<Rightarrow> None | Some m \<Rightarrow> m name)"

text \<open>
  The registry is sound at a name when what it holds under the name, if anything,
  is the reference of a model in the heap.
\<close>

definition registered_is_model :: "world \<Rightarrow> string \<Rightarrow> bool" where
  "registered_is_model w name =
     (case registered w name of
        None \<Rightarrow> True
      | Some r \<Rightarrow> (case lookup w r of None \<Rightarrow> False | Some ob \<Rightarrow> is_model ob))"

text \<open>A state in which mongoose already has the model, as on a second load.\<close>

definition model_already_registered :: world where
  "model_already_registered =
     \<lparr> heap = [Model ''BruteForce'' bruteForceSchema],
       mongoose_models = Some [''BruteForce'' \<mapsto> 0] \<rparr>"


subsection \<open>What a blocked caller is told\<close>


text \<open>The number a string of decimal digits denotes.\<close>

definition digits_value :: "string \<Rightarrow> nat" where
  "digits_value s = foldl (\<lambda>a c. 10 * a + (of_char c - 48)) 0 s"

section \<open>Tier settings\<close>

text \<open>
  C3. The four tiers login, global, registration and payment have free retries
  5, 100, 3, 10; minimum waits of 5, 1, 10 and 5 minutes; maximum waits of 1 hour,
  15 minutes, 2 hours and 30 minutes; lifetimes of 24, 1, 24 and 1 hours.
\<close>

theorem tiers_configured:
  "map (\<lambda>t. freeRetries (tier_options t)) [Login, Global, Registration, Payment]
     = [5, 100, 3, 10]
   \<and> map (\<lambda>t. minWait (tier_options t)) [Login, Global, Registration, Payment]
     = [minutes_ms 5, minutes_ms 1, minutes_ms 10, minutes_ms 5]
   \<and> map (\<lambda>t. maxWait (tier_options t)) [Login, Global, Registration, Payment]
     = [hours_ms 1, minutes_ms 15, hours_ms 2, minutes_ms 30]
   \<and> map (\<lambda>t. lifetime (tier_options t)) [Login, Global, Registration, Payment]
     = [hours_s 24, hours_s 1, hours_s 24, hours_s 1]"
  by (simp add: loginOptions_def globalOptions_def registrationOptions_def paymentOptions_def
        minutes_ms_def hours_ms_def hours_s_def)

section \<open>The response to a blocked request\<close>

lemmas failCallback_defs =
  loginOptions_def globalOptions_def registrationOptions_def paymentOptions_def
  login_failCallback_def global_failCallback_def registration_failCallback_def
  payment_failCallback_def res_status_def res_json_def sent_field_def

text \<open>
  C10. For every tier, the \<open>failCallback\<close> responds with status 429 and a JSON
  body whose \<open>success\<close> field is \<open>false\<close>, and it does not call \<open>next()\<close>:
  whatever the clock, the date it is given and the state of the response it finds.
\<close>

theorem failCallback_rejects_with_429:
  "status_set (failCallback (tier_options t) now nextValidRequestDate e) = Some 429
   \<and> sent_field (failCallback (tier_options t) now nextValidRequestDate e) ''success''
       = Some (JBool False)
   \<and> next_called (failCallback (tier_options t) now nextValidRequestDate e) = next_called e"
  by (cases t) (simp_all add: failCallback_defs Let_def)


lemma digit_char_value: "d < 10 \<Longrightarrow> of_char (digit_char d) = 48 + d"
proof -
  assume "d < 10"
  then have "d \<in> {0, 1, 2, 3, 4, 5, 6, 7, 8, 9}"
    by auto
  then show ?thesis
    by (auto simp: digit_char_def)
qed

lemma digits_value_append:
  "digits_value (s @ [c]) = 10 * digits_value s + (of_char c - 48)"
  by (simp add: digits_value_def)

lemma digits_value_digits: "digits_value (digits n) = n"
proof (induction n rule: digits.induct)
  case (1 n)
  show ?case
  proof (cases "n < 10")
    case True
    then have "digits n = [digit_char n]"
      by simp
    then show ?thesis
      using True by (simp add: digits_value_def digit_char_value)
  next
    case False
    then have d: "digits n = digits (n div 10) @ [digit_char (n mod 10)]"
      by simp
    have "digits_value (digits n) = 10 * (n div 10) + n mod 10"
      using "1.IH" [OF False] by (simp only: d digits_value_append digit_char_value)
    then show ?thesis
      by simp
  qed
qed

text \<open>
  With an Invalid Date the login and registration callbacks print \<open>NaN\<close> for the
  minutes, and the login body carries \<open>null\<close> for the date.
\<close>

lemma failCallback_invalid_date:
  "sent_field (failCallback (tier_options Login) now InvalidDate e) ''message''
     = Some (JString ''Too many failed login attempts. Please try again in NaN minute(s).'')
   \<and> sent_field (failCallback (tier_options Registration) now InvalidDate e) ''message''
     = Some (JString ''Too many registration attempts. Please try again in NaN minute(s).'')
   \<and> sent_field (failCallback (tier_options Login) now InvalidDate e) ''nextValidRequestDate''
     = Some JNull"
  by (simp add: failCallback_defs Let_def)




section \<open>Store errors\<close>

text \<open>
  C9. The \<open>handleStoreError\<close> of the login guard returns normally for every
  store error, and what it does (the line it logs, the value it returns) is the
  same in any two environments: \<open>NODE_ENV\<close> and \<open>CI\<close> choose between two
  branches that both return.
\<close>

theorem login_handleStoreError_ignores_env:
  "login_handleStoreError ev error out = login_handleStoreError ev' error out
   \<and> fst (login_handleStoreError ev error out) = Returns ()
   \<and> snd (login_handleStoreError ev error out)
       = out @ [ConsoleError ''Express-brute store error:'' error]"
  by (simp add: login_handleStoreError_def Let_def)

text \<open>
  C2 asks every tier to recover from a store error. Only the login guard is given
  a \<open>handleStoreError\<close>; the options of the other three guards have none.
\<close>

theorem handleStoreError_only_for_login:
  "handleStoreError (tier_options Login) = Some login_handleStoreError
   \<and> handleStoreError (tier_options Global) = None
   \<and> handleStoreError (tier_options Registration) = None
   \<and> handleStoreError (tier_options Payment) = None"
  by (simp add: loginOptions_def globalOptions_def registrationOptions_def paymentOptions_def)

section \<open>One store for the four guards\<close>

text \<open>
  Looking the model up, or creating it, leaves it registered as \<open>BruteForce\<close> and
  adds no store and at most one model to the heap.
\<close>

lemma BruteForceModel_heap:
  "BruteForceModel w = (m, w') \<Longrightarrow>
     registered w' ''BruteForce'' = Some m
     \<and> (\<exists>ys. heap w' = heap w @ ys \<and> filter is_store ys = []
              \<and> length (filter is_model ys) \<le> 1)"
  by (auto simp: BruteForceModel_def mongoose_model_def new_def registered_def Let_def
           split: option.splits)

text \<open>Where the registry was sound, what the module takes for its model is a model.\<close>

lemma BruteForceModel_is_model:
  assumes "BruteForceModel w = (m, w')" and "registered_is_model w ''BruteForce''"
  shows "\<exists>name sch. lookup w' m = Some (Model name sch)"
proof (cases "registered w ''BruteForce''")
  case None
  then have "BruteForceModel w = mongoose_model ''BruteForce'' bruteForceSchema w"
    by (simp add: BruteForceModel_def registered_def split: option.splits)
  with assms(1) have "lookup w' m = Some (Model ''BruteForce'' bruteForceSchema)"
    by (auto simp: mongoose_model_def new_def lookup_def Let_def)
  then show ?thesis
    by blast
next
  case (Some r)
  then have "BruteForceModel w = (r, w)"
    by (auto simp: BruteForceModel_def registered_def split: option.splits)
  with assms(1) have "m = r" and "w' = w"
    by simp_all
  moreover obtain ob where "lookup w r = Some ob" and "is_model ob"
    using assms(2) Some by (auto simp: registered_is_model_def split: option.splits)
  moreover from \<open>is_model ob\<close> obtain name sch where "ob = Model name sch"
    by (cases ob) simp_all
  ultimately show ?thesis
    by blast
qed

lemma brute_module_eq:
  assumes "BruteForceModel w = (m, w1)"
  shows "brute_module w =
     (\<lparr> loginBruteForce = length (heap w1) + 1, globalBruteForce = length (heap w1) + 2,
         registrationBruteForce = length (heap w1) + 3, paymentBruteForce = length (heap w1) + 4 \<rparr>,
      w1\<lparr>heap := heap w1 @
           [MongooseStore m,
            ExpressBrute (length (heap w1)) loginOptions,
            ExpressBrute (length (heap w1)) globalOptions,
            ExpressBrute (length (heap w1)) registrationOptions,
            ExpressBrute (length (heap w1)) paymentOptions]\<rparr>)"
  using assms by (simp add: brute_module_def store_def new_def)

text \<open>
  C8. Whatever the state the module is loaded in, its four guards hold one and the
  same store; that store is over what is registered as \<open>BruteForce\<close>; loading the
  module creates no other store and at most one model; and where the registry was
  sound for that name, what the store is over is a model in the heap.
\<close>

theorem guards_share_store:
  "\<exists>st m.
      store_of (snd (brute_module w)) (loginBruteForce (fst (brute_module w))) = Some st
    \<and> store_of (snd (brute_module w)) (globalBruteForce (fst (brute_module w))) = Some st
    \<and> store_of (snd (brute_module w)) (registrationBruteForce (fst (brute_module w))) = Some st
    \<and> store_of (snd (brute_module w)) (paymentBruteForce (fst (brute_module w))) = Some st
    \<and> model_of (snd (brute_module w)) st = Some m
    \<and> registered (snd (brute_module w)) ''BruteForce'' = Some m
    \<and> length (filter is_store (drop (length (heap w)) (heap (snd (brute_module w))))) = 1
    \<and> length (filter is_model (drop (length (heap w)) (heap (snd (brute_module w))))) \<le> 1
    \<and> (registered_is_model w ''BruteForce'' \<longrightarrow>
         (\<exists>name sch. lookup (snd (brute_module w)) m = Some (Model name sch)))"
proof -
  obtain m w1 where bm: "BruteForceModel w = (m, w1)"
    by (cases "BruteForceModel w")
  from BruteForceModel_heap [OF bm] obtain ys where
    reg: "registered w1 ''BruteForce'' = Some m" and
    hp: "heap w1 = heap w @ ys" and ns: "filter is_store ys = []" and
    nm: "length (filter is_model ys) \<le> 1"
    by blast
  let ?n = "length (heap w1)"
  have "store_of (snd (brute_module w)) (loginBruteForce (fst (brute_module w))) = Some ?n"
    by (simp add: brute_module_eq [OF bm] store_of_def lookup_def nth_append)
  moreover have "store_of (snd (brute_module w)) (globalBruteForce (fst (brute_module w))) = Some ?n"
    by (simp add: brute_module_eq [OF bm] store_of_def lookup_def nth_append)
  moreover have "store_of (snd (brute_module w)) (registrationBruteForce (fst (brute_module w))) = Some ?n"
    by (simp add: brute_module_eq [OF bm] store_of_def lookup_def nth_append)
  moreover have "store_of (snd (brute_module w)) (paymentBruteForce (fst (brute_module w))) = Some ?n"
    by (simp add: brute_module_eq [OF bm] store_of_def lookup_def nth_append)
  moreover have "model_of (snd (brute_module w)) ?n = Some m"
    by (simp add: brute_module_eq [OF bm] model_of_def lookup_def nth_append)
  moreover have "registered (snd (brute_module w)) ''BruteForce'' = Some m"
    using reg by (simp add: brute_module_eq [OF bm] registered_def)
  moreover have "length (filter is_store (drop (length (heap w)) (heap (snd (brute_module w))))) = 1"
    using ns by (simp add: brute_module_eq [OF bm] hp)
  moreover have "length (filter is_model (drop (length (heap w)) (heap (snd (brute_module w))))) \<le> 1"
    using nm by (simp add: brute_module_eq [OF bm] hp)
  moreover have "registered_is_model w ''BruteForce'' \<longrightarrow>
         (\<exists>name sch. lookup (snd (brute_module w)) m = Some (Model name sch))"
  proof
    assume "registered_is_model w ''BruteForce''"
    from BruteForceModel_is_model [OF bm this] obtain name sch where
      "lookup w1 m = Some (Model name sch)"
      by blast
    then have "lookup (snd (brute_module w)) m = Some (Model name sch)"
      by (auto simp: brute_module_eq [OF bm] lookup_def nth_append split: if_splits)
    then show "\<exists>name sch. lookup (snd (brute_module w)) m = Some (Model name sch)"
      by blast
  qed
  ultimately show ?thesis by blast
qed

text \<open>
  Loaded where mongoose already has the model at reference 0: the store is created
  at reference 1 over that model, and the four guards hold it.
\<close>

theorem guards_share_store_witness:
  "registered_is_model model_already_registered ''BruteForce''
   \<and> store_of (snd (brute_module model_already_registered))
        (loginBruteForce (fst (brute_module model_already_registered))) = Some 1
   \<and> store_of (snd (brute_module model_already_registered))
        (paymentBruteForce (fst (brute_module model_already_registered))) = Some 1
   \<and> model_of (snd (brute_module model_already_registered)) 1 = Some 0
   \<and> lookup (snd (brute_module model_already_registered)) 0
       = Some (Model ''BruteForce'' bruteForceSchema)"
proof -
  have h: "registered_is_model model_already_registered ''BruteForce''"
    by (simp add: registered_is_model_def registered_def lookup_def model_already_registered_def)
  have bm: "BruteForceModel model_already_registered = (0, model_already_registered)"
    by (simp add: BruteForceModel_def model_already_registered_def)
  from guards_share_store [of model_already_registered] h obtain st m name sch where
    "store_of (snd (brute_module model_already_registered))
        (loginBruteForce (fst (brute_module model_already_registered))) = Some st"
    "store_of (snd (brute_module model_already_registered))
        (paymentBruteForce (fst (brute_module model_already_registered))) = Some st"
    "model_of (snd (brute_module model_already_registered)) st = Some m"
    "registered (snd (brute_module model_already_registered)) ''BruteForce'' = Some m"
    "lookup (snd (brute_module model_already_registered)) m = Some (Model name sch)"
    by blast
  moreover have "registered (snd (brute_module model_already_registered)) ''BruteForce'' = Some 0"
    unfolding brute_module_eq [OF bm]
    by (simp add: registered_def model_already_registered_def)
  moreover have "model_of (snd (brute_module model_already_registered)) 1 = Some 0"
    unfolding brute_module_eq [OF bm]
    by (simp add: model_of_def lookup_def model_already_registered_def)
  moreover have "lookup (snd (brute_module model_already_registered)) 0
       = Some (Model ''BruteForce'' bruteForceSchema)"
    unfolding brute_module_eq [OF bm]
    by (simp add: lookup_def model_already_registered_def)
  moreover have "store_of (snd (brute_module model_already_registered))
        (loginBruteForce (fst (brute_module model_already_registered))) = Some 1"
    unfolding brute_module_eq [OF bm]
    by (simp add: store_of_def lookup_def model_already_registered_def)
  moreover have "store_of (snd (brute_module model_already_registered))
        (paymentBruteForce (fst (brute_module model_already_registered))) = Some 1"
    unfolding brute_module_eq [OF bm]
    by (simp add: store_of_def lookup_def model_already_registered_def)
  ultimately show ?thesis
    using h by simp
qed

end
